theory Spec2Isabelle
  imports Main
begin

section \<open>The intrusive reference-counting smart pointer \<open>rtc::scoped_refptr<T>\<close>\<close>

text \<open>
  The class of \<^verbatim>\<open>api/scoped_refptr.h\<close> has a single data member, \<^verbatim>\<open>T* ptr_\<close>.
  Its member functions read and write that member of \<^verbatim>\<open>*this\<close> and of other
  wrappers passed by reference, and call \<^verbatim>\<open>AddRef()\<close> and \<^verbatim>\<open>Release()\<close> on the
  pointee. Since two references may name the same wrapper (\<^verbatim>\<open>a = std::move(a)\<close>), the
  wrappers live in an explicit store: every operation takes the place of \<^verbatim>\<open>*this\<close>
  (and of its reference arguments) and the program state, and returns the new state.
\<close>

subsection \<open>Data model\<close>

text \<open>An object of type \<^verbatim>\<open>T\<close> is known by its address; a \<^verbatim>\<open>T*\<close> is an address
  or \<^verbatim>\<open>nullptr\<close> (\<open>None\<close>).\<close>

type_synonym addr = nat
type_synonym pointer = "addr option"

text \<open>
  A place that holds a \<^verbatim>\<open>T*\<close>: the \<^verbatim>\<open>ptr_\<close> member of a wrapper of the program
  (or a raw \<^verbatim>\<open>T*\<close> variable handed to \<^verbatim>\<open>swap(T**)\<close>), or the \<^verbatim>\<open>ptr_\<close> member of
  the unnamed temporary that the move assignment operator creates. No reference of
  the program can name that temporary.
\<close>

datatype slot = Var nat | Temp

text \<open>The calls made on pointees, in the order they are made.\<close>

datatype event = CallAddRef addr | CallRelease addr

text \<open>
  The program state: \<open>ptr s a\<close> is \<^verbatim>\<open>a.ptr_\<close>; \<open>ref_count s q\<close> is the count of
  strong references kept inside the object at \<open>q\<close>; \<open>destroyed s q\<close> holds once a
  \<^verbatim>\<open>Release()\<close> has brought that count to zero; \<open>calls s\<close> is the log of the
  capability calls made so far.
\<close>

record state =
  ptr :: "slot \<Rightarrow> pointer"
  ref_count :: "addr \<Rightarrow> int"
  destroyed :: "addr \<Rightarrow> bool"
  calls :: "event list"

subsection \<open>The capability required of \<^verbatim>\<open>T\<close>\<close>

text \<open>
  Modelled from the spec: \<^verbatim>\<open>T::AddRef()\<close> is not part of the header (\<^verbatim>\<open>T\<close> is the
  template parameter). Section 6 of the specification: it increases the live
  strong-reference count by one.
\<close>

definition AddRef :: "addr \<Rightarrow> state \<Rightarrow> state" where
  "AddRef q s =
     s\<lparr>ref_count := (ref_count s)(q := ref_count s q + 1),
       calls := calls s @ [CallAddRef q]\<rparr>"

text \<open>
  Modelled from the spec: \<^verbatim>\<open>T::Release()\<close> is not part of the header. Section 6 of
  the specification: it decreases the count by one, and destroys the object if the
  count reaches zero.
\<close>

definition Release :: "addr \<Rightarrow> state \<Rightarrow> state" where
  "Release q s =
     (let c = ref_count s q - 1
      in s\<lparr>ref_count := (ref_count s)(q := c),
           destroyed := (if c = 0 then (destroyed s)(q := True) else destroyed s),
           calls := calls s @ [CallRelease q]\<rparr>)"

subsection \<open>Constructors and destructor\<close>

text \<open>\<^verbatim>\<open>scoped_refptr() : ptr_(nullptr) {}\<close>\<close>

definition ctor_default :: "slot \<Rightarrow> state \<Rightarrow> state" where
  "ctor_default this s = s\<lparr>ptr := (ptr s)(this := None)\<rparr>"

text \<open>\<^verbatim>\<open>scoped_refptr(T* p) : ptr_(p) { if (ptr_) ptr_->AddRef(); }\<close>\<close>

definition ctor_raw :: "slot \<Rightarrow> pointer \<Rightarrow> state \<Rightarrow> state" where
  "ctor_raw this p s =
     (let s1 = s\<lparr>ptr := (ptr s)(this := p)\<rparr>
      in case ptr s1 this of None \<Rightarrow> s1 | Some q \<Rightarrow> AddRef q s1)"

text \<open>\<^verbatim>\<open>scoped_refptr(const scoped_refptr<T>& r) : ptr_(r.ptr_) { if (ptr_) ptr_->AddRef(); }\<close>\<close>

definition ctor_copy :: "slot \<Rightarrow> slot \<Rightarrow> state \<Rightarrow> state" where
  "ctor_copy this r s =
     (let s1 = s\<lparr>ptr := (ptr s)(this := ptr s r)\<rparr>
      in case ptr s1 this of None \<Rightarrow> s1 | Some q \<Rightarrow> AddRef q s1)"

text \<open>\<^verbatim>\<open>T* get() const { return ptr_; }\<close>\<close>

definition get :: "slot \<Rightarrow> state \<Rightarrow> pointer" where
  "get this s = ptr s this"

text \<open>\<^verbatim>\<open>template <typename U> scoped_refptr(const scoped_refptr<U>& r) : ptr_(r.get()) {...}\<close>.
  A \<^verbatim>\<open>U*\<close> converts to the \<^verbatim>\<open>T*\<close> of the same object.\<close>

definition ctor_copy_U :: "slot \<Rightarrow> slot \<Rightarrow> state \<Rightarrow> state" where
  "ctor_copy_U this r s =
     (let s1 = s\<lparr>ptr := (ptr s)(this := get r s)\<rparr>
      in case ptr s1 this of None \<Rightarrow> s1 | Some q \<Rightarrow> AddRef q s1)"

text \<open>\<^verbatim>\<open>T* release() { T* retVal = ptr_; ptr_ = nullptr; return retVal; }\<close>\<close>

definition release :: "slot \<Rightarrow> state \<Rightarrow> pointer \<times> state" where
  "release this s =
     (let retVal = ptr s this;
          s1 = s\<lparr>ptr := (ptr s)(this := None)\<rparr>
      in (retVal, s1))"

text \<open>\<^verbatim>\<open>scoped_refptr(scoped_refptr<T>&& r) noexcept : ptr_(r.release()) {}\<close>, and the
  same body for \<^verbatim>\<open>scoped_refptr<U>&&\<close>.\<close>

definition ctor_move :: "slot \<Rightarrow> slot \<Rightarrow> state \<Rightarrow> state" where
  "ctor_move this r s =
     (case release r s of (p, s1) \<Rightarrow> s1\<lparr>ptr := (ptr s1)(this := p)\<rparr>)"

text \<open>\<^verbatim>\<open>~scoped_refptr() { if (ptr_) ptr_->Release(); }\<close>. The destructor does not
  write \<^verbatim>\<open>ptr_\<close>; the storage of the wrapper is dead afterwards.\<close>

definition dtor :: "slot \<Rightarrow> state \<Rightarrow> state" where
  "dtor this s = (case ptr s this of None \<Rightarrow> s | Some q \<Rightarrow> Release q s)"

subsection \<open>Assignment and swap\<close>

text \<open>
  \<^verbatim>\<open>scoped_refptr<T>& operator=(T* p) {
    // AddRef first so that self assignment should work
    if (p) p->AddRef();
    if (ptr_) ptr_->Release();
    ptr_ = p;
    return *this; }\<close>
\<close>

definition assign_raw :: "slot \<Rightarrow> pointer \<Rightarrow> state \<Rightarrow> state" where
  "assign_raw this p s =
     (let s1 = (case p of None \<Rightarrow> s | Some q \<Rightarrow> AddRef q s);
          s2 = (case ptr s1 this of None \<Rightarrow> s1 | Some t \<Rightarrow> Release t s1)
      in s2\<lparr>ptr := (ptr s2)(this := p)\<rparr>)"

text \<open>\<^verbatim>\<open>scoped_refptr<T>& operator=(const scoped_refptr<T>& r) { return *this = r.ptr_; }\<close>\<close>

definition assign_copy :: "slot \<Rightarrow> slot \<Rightarrow> state \<Rightarrow> state" where
  "assign_copy this r s = assign_raw this (ptr s r) s"

text \<open>\<^verbatim>\<open>template <typename U> scoped_refptr<T>& operator=(const scoped_refptr<U>& r)
  { return *this = r.get(); }\<close>\<close>

definition assign_copy_U :: "slot \<Rightarrow> slot \<Rightarrow> state \<Rightarrow> state" where
  "assign_copy_U this r s = assign_raw this (get r s) s"

text \<open>\<^verbatim>\<open>void swap(T** pp) noexcept { T* p = ptr_; ptr_ = *pp; *pp = p; }\<close>\<close>

definition swap_pp :: "slot \<Rightarrow> slot \<Rightarrow> state \<Rightarrow> state" where
  "swap_pp this pp s =
     (let p = ptr s this;
          s1 = s\<lparr>ptr := (ptr s)(this := ptr s pp)\<rparr>
      in s1\<lparr>ptr := (ptr s1)(pp := p)\<rparr>)"

text \<open>\<^verbatim>\<open>void swap(scoped_refptr<T>& r) noexcept { swap(&r.ptr_); }\<close>\<close>

definition swap_ref :: "slot \<Rightarrow> slot \<Rightarrow> state \<Rightarrow> state" where
  "swap_ref this r s = swap_pp this r s"

text \<open>
  \<^verbatim>\<open>scoped_refptr<T>& operator=(scoped_refptr<T>&& r) noexcept {
    scoped_refptr<T>(std::move(r)).swap(*this);
    return *this; }\<close>
  and the same body for \<^verbatim>\<open>scoped_refptr<U>&&\<close>. The temporary is move-constructed
  from \<open>r\<close>, swapped with \<^verbatim>\<open>*this\<close>, and destroyed at the end of the full expression.
\<close>

definition assign_move :: "slot \<Rightarrow> slot \<Rightarrow> state \<Rightarrow> state" where
  "assign_move this r s =
     (let s1 = ctor_move Temp r s;
          s2 = swap_ref Temp this s1
      in dtor Temp s2)"

subsection \<open>Example states\<close>

text \<open>
  A state in which the wrapper \<open>Var i\<close> holds the object at \<open>q\<close>, whose count is
  \<open>c\<close>, every other wrapper is null and no call has been made yet; and the same
  state with a second wrapper \<open>Var j\<close> holding the object at \<open>t\<close> (count \<open>d\<close>).
\<close>

definition holding :: "nat \<Rightarrow> addr \<Rightarrow> int \<Rightarrow> state" where
  "holding i q c =
     \<lparr>ptr = (\<lambda>_. None)(Var i := Some q),
      ref_count = (\<lambda>_. 0)(q := c),
      destroyed = (\<lambda>_. False),
      calls = []\<rparr>"

definition holding2 :: "nat \<Rightarrow> addr \<Rightarrow> int \<Rightarrow> nat \<Rightarrow> addr \<Rightarrow> int \<Rightarrow> state" where
  "holding2 i q c j t d =
     \<lparr>ptr = (\<lambda>_. None)(Var i := Some q, Var j := Some t),
      ref_count = (\<lambda>_. 0)(q := c, t := d),
      destroyed = (\<lambda>_. False),
      calls = []\<rparr>"

section \<open>Properties\<close>

subsection \<open>Assignment of a raw pointer\<close>

text \<open>
  C1. For every wrapper \<open>a\<close> and every raw pointer \<open>p\<close>, \<^verbatim>\<open>a = p\<close> calls
  \<^verbatim>\<open>AddRef\<close> on \<open>p\<close> first (only if \<open>p\<close> is non-null), then \<^verbatim>\<open>Release\<close> on the
  current target (only if it is non-null), then stores \<open>p\<close>. The calls are made, not
  only logged: the count of \<open>p\<close> goes up by one, then the count of the old target goes
  down by one, and the old target is destroyed exactly if that brings its count to
  zero; the final state is the store of \<open>p\<close> after the optional \<^verbatim>\<open>Release\<close> after
  the optional \<^verbatim>\<open>AddRef\<close>. When \<open>p\<close> is the current target \<open>q\<close> of \<open>a\<close> and the
  count of \<open>q\<close> is at least one, the operation runs through \<open>AddRef q s\<close> and
  \<open>Release q (AddRef q s)\<close>, in which the count of \<open>q\<close> is one more than before and
  then as before, so it is never zero; no object is destroyed, and the final state is
  the initial one with the two calls logged.
\<close>

theorem assign_raw_addref_before_release:
  "calls (assign_raw a p s) =
     calls s @ (case p of None \<Rightarrow> [] | Some q \<Rightarrow> [CallAddRef q])
             @ (case ptr s a of None \<Rightarrow> [] | Some t \<Rightarrow> [CallRelease t])
   \<and> ptr (assign_raw a p s) = (ptr s)(a := p)
   \<and> ref_count (assign_raw a p s) =
       (let c1 = (case p of None \<Rightarrow> ref_count s
                  | Some q \<Rightarrow> (ref_count s)(q := ref_count s q + 1))
        in case ptr s a of None \<Rightarrow> c1 | Some t \<Rightarrow> c1(t := c1 t - 1))
   \<and> destroyed (assign_raw a p s) =
       (let c1 = (case p of None \<Rightarrow> ref_count s
                  | Some q \<Rightarrow> (ref_count s)(q := ref_count s q + 1))
        in case ptr s a of None \<Rightarrow> destroyed s
           | Some t \<Rightarrow> if c1 t - 1 = 0 then (destroyed s)(t := True) else destroyed s)
   \<and> assign_raw a p s =
       (let s1 = (case p of None \<Rightarrow> s | Some q \<Rightarrow> AddRef q s);
            s2 = (case ptr s a of None \<Rightarrow> s1 | Some t \<Rightarrow> Release t s1)
        in s2\<lparr>ptr := (ptr s)(a := p)\<rparr>)
   \<and> (ptr s a = Some q \<and> 1 \<le> ref_count s q \<longrightarrow>
        assign_raw a (Some q) s = (Release q (AddRef q s))\<lparr>ptr := (ptr s)(a := Some q)\<rparr>
      \<and> ref_count (AddRef q s) q = ref_count s q + 1
      \<and> ref_count (AddRef q s) q \<noteq> 0
      \<and> ref_count (Release q (AddRef q s)) q = ref_count s q
      \<and> ref_count (Release q (AddRef q s)) q \<noteq> 0
      \<and> destroyed (assign_raw a (Some q) s) = destroyed s
      \<and> ref_count (assign_raw a (Some q) s) = ref_count s
      \<and> assign_raw a (Some q) s = s\<lparr>calls := calls s @ [CallAddRef q, CallRelease q]\<rparr>)"
proof -
  have log: "calls (assign_raw a p s) =
     calls s @ (case p of None \<Rightarrow> [] | Some q \<Rightarrow> [CallAddRef q])
             @ (case ptr s a of None \<Rightarrow> [] | Some t \<Rightarrow> [CallRelease t])"
    by (simp add: assign_raw_def AddRef_def Release_def Let_def split: option.splits)
  have stored: "ptr (assign_raw a p s) = (ptr s)(a := p)"
    by (simp add: assign_raw_def AddRef_def Release_def Let_def split: option.splits)
  have counts: "ref_count (assign_raw a p s) =
       (let c1 = (case p of None \<Rightarrow> ref_count s
                  | Some q \<Rightarrow> (ref_count s)(q := ref_count s q + 1))
        in case ptr s a of None \<Rightarrow> c1 | Some t \<Rightarrow> c1(t := c1 t - 1))"
    by (simp add: assign_raw_def AddRef_def Release_def Let_def split: option.splits)
  have dead: "destroyed (assign_raw a p s) =
       (let c1 = (case p of None \<Rightarrow> ref_count s
                  | Some q \<Rightarrow> (ref_count s)(q := ref_count s q + 1))
        in case ptr s a of None \<Rightarrow> destroyed s
           | Some t \<Rightarrow> if c1 t - 1 = 0 then (destroyed s)(t := True) else destroyed s)"
    by (simp add: assign_raw_def AddRef_def Release_def Let_def split: option.splits)
  have whole: "assign_raw a p s =
       (let s1 = (case p of None \<Rightarrow> s | Some q \<Rightarrow> AddRef q s);
            s2 = (case ptr s a of None \<Rightarrow> s1 | Some t \<Rightarrow> Release t s1)
        in s2\<lparr>ptr := (ptr s)(a := p)\<rparr>)"
    by (simp add: assign_raw_def AddRef_def Release_def Let_def split: option.splits)
  have self: "ptr s a = Some q \<and> 1 \<le> ref_count s q \<longrightarrow>
        assign_raw a (Some q) s = (Release q (AddRef q s))\<lparr>ptr := (ptr s)(a := Some q)\<rparr>
      \<and> ref_count (AddRef q s) q = ref_count s q + 1
      \<and> ref_count (AddRef q s) q \<noteq> 0
      \<and> ref_count (Release q (AddRef q s)) q = ref_count s q
      \<and> ref_count (Release q (AddRef q s)) q \<noteq> 0
      \<and> destroyed (assign_raw a (Some q) s) = destroyed s
      \<and> ref_count (assign_raw a (Some q) s) = ref_count s
      \<and> assign_raw a (Some q) s = s\<lparr>calls := calls s @ [CallAddRef q, CallRelease q]\<rparr>"
    by (auto simp: assign_raw_def AddRef_def Release_def Let_def fun_upd_idem
        split: option.splits)
  from log stored counts dead whole self show ?thesis
    by blast
qed

theorem assign_raw_self_assignment_witness:
  "ptr (holding 0 7 1) (Var 0) = Some 7 \<and> 1 \<le> ref_count (holding 0 7 1) 7
   \<and> calls (assign_raw (Var 0) (Some 7) (holding 0 7 1)) = [CallAddRef 7, CallRelease 7]
   \<and> ref_count (assign_raw (Var 0) (Some 7) (holding 0 7 1)) 7 = 1
   \<and> \<not> destroyed (assign_raw (Var 0) (Some 7) (holding 0 7 1)) 7
   \<and> ptr (assign_raw (Var 0) (Some 7) (holding 0 7 1)) (Var 0) = Some 7
   \<and> calls (assign_raw (Var 0) None (holding 0 7 1)) = [CallRelease 7]
   \<and> ref_count (assign_raw (Var 0) None (holding 0 7 1)) 7 = 0
   \<and> destroyed (assign_raw (Var 0) None (holding 0 7 1)) 7
   \<and> ptr (assign_raw (Var 0) None (holding 0 7 1)) (Var 0) = None
   \<and> calls (assign_raw (Var 0) (Some 9) (holding2 0 7 2 1 9 1))
       = [CallAddRef 9, CallRelease 7]
   \<and> ref_count (assign_raw (Var 0) (Some 9) (holding2 0 7 2 1 9 1)) 9 = 2
   \<and> ref_count (assign_raw (Var 0) (Some 9) (holding2 0 7 2 1 9 1)) 7 = 1
   \<and> \<not> destroyed (assign_raw (Var 0) (Some 9) (holding2 0 7 2 1 9 1)) 7
   \<and> ptr (assign_raw (Var 0) (Some 9) (holding2 0 7 2 1 9 1)) (Var 0) = Some 9"
proof -
  have h: "ptr (holding 0 7 1) (Var 0) = Some 7 \<and> 1 \<le> ref_count (holding 0 7 1) 7"
    by (simp add: holding_def)
  have self: "calls (assign_raw (Var 0) (Some 7) (holding 0 7 1)) = [CallAddRef 7, CallRelease 7]
    \<and> ref_count (assign_raw (Var 0) (Some 7) (holding 0 7 1)) 7 = 1
    \<and> \<not> destroyed (assign_raw (Var 0) (Some 7) (holding 0 7 1)) 7
    \<and> ptr (assign_raw (Var 0) (Some 7) (holding 0 7 1)) (Var 0) = Some 7"
    using assign_raw_addref_before_release [of "Var 0" "Some 7" "holding 0 7 1" 7]
    by (simp add: holding_def AddRef_def Release_def)
  have drop: "calls (assign_raw (Var 0) None (holding 0 7 1)) = [CallRelease 7]
    \<and> ref_count (assign_raw (Var 0) None (holding 0 7 1)) 7 = 0
    \<and> destroyed (assign_raw (Var 0) None (holding 0 7 1)) 7
    \<and> ptr (assign_raw (Var 0) None (holding 0 7 1)) (Var 0) = None"
    using assign_raw_addref_before_release [of "Var 0" None "holding 0 7 1" 7]
    by (simp add: holding_def AddRef_def Release_def)
  have other: "calls (assign_raw (Var 0) (Some 9) (holding2 0 7 2 1 9 1))
       = [CallAddRef 9, CallRelease 7]
    \<and> ref_count (assign_raw (Var 0) (Some 9) (holding2 0 7 2 1 9 1)) 9 = 2
    \<and> ref_count (assign_raw (Var 0) (Some 9) (holding2 0 7 2 1 9 1)) 7 = 1
    \<and> \<not> destroyed (assign_raw (Var 0) (Some 9) (holding2 0 7 2 1 9 1)) 7
    \<and> ptr (assign_raw (Var 0) (Some 9) (holding2 0 7 2 1 9 1)) (Var 0) = Some 9"
    using assign_raw_addref_before_release [of "Var 0" "Some 9" "holding2 0 7 2 1 9 1" 7]
    by (simp add: holding2_def AddRef_def Release_def)
  from h self drop other show ?thesis
    by blast
qed

subsection \<open>Construction, destruction and release\<close>

text \<open>
  C2. For every raw pointer \<open>p\<close>, constructing a wrapper from \<open>p\<close> calls \<^verbatim>\<open>AddRef\<close>
  on \<open>p\<close> exactly once if \<open>p\<close> is non-null (so the count of \<open>p\<close> grows by one) and
  makes no capability call if \<open>p\<close> is null; in both cases \<^verbatim>\<open>get()\<close> of the new
  wrapper is \<open>p\<close>.
\<close>

theorem ctor_raw_addref_once:
  "calls (ctor_raw a p s) = calls s @ (case p of None \<Rightarrow> [] | Some q \<Rightarrow> [CallAddRef q])
   \<and> get a (ctor_raw a p s) = p
   \<and> ref_count (ctor_raw a p s) =
       (case p of None \<Rightarrow> ref_count s | Some q \<Rightarrow> (ref_count s)(q := ref_count s q + 1))"
  by (simp add: ctor_raw_def AddRef_def get_def split: option.splits)

theorem ctor_raw_addref_once_witness:
  "calls (ctor_raw (Var 1) (Some 7) (holding 0 7 1)) = [CallAddRef 7]
   \<and> get (Var 1) (ctor_raw (Var 1) (Some 7) (holding 0 7 1)) = Some 7
   \<and> ref_count (ctor_raw (Var 1) (Some 7) (holding 0 7 1)) 7 = 2
   \<and> calls (ctor_raw (Var 1) None (holding 0 7 1)) = []
   \<and> get (Var 1) (ctor_raw (Var 1) None (holding 0 7 1)) = None"
  using ctor_raw_addref_once [of "Var 1" "Some 7" "holding 0 7 1"]
    ctor_raw_addref_once [of "Var 1" None "holding 0 7 1"]
  by (simp add: holding_def)

text \<open>
  C3. For every wrapper holding a non-null target, \<^verbatim>\<open>release()\<close> returns the stored
  raw pointer, leaves the wrapper null, and makes no capability call: the log, the
  counts and the set of destroyed objects are as before.
\<close>

theorem release_nonnull_no_calls:
  "ptr s a = Some q \<Longrightarrow>
     fst (release a s) = Some q
   \<and> get a (snd (release a s)) = None
   \<and> calls (snd (release a s)) = calls s
   \<and> ref_count (snd (release a s)) = ref_count s
   \<and> destroyed (snd (release a s)) = destroyed s"
  by (simp add: release_def get_def)

theorem release_nonnull_no_calls_witness:
  "ptr (holding 0 7 1) (Var 0) = Some 7
   \<and> fst (release (Var 0) (holding 0 7 1)) = Some 7
   \<and> get (Var 0) (snd (release (Var 0) (holding 0 7 1))) = None
   \<and> calls (snd (release (Var 0) (holding 0 7 1))) = []
   \<and> ref_count (snd (release (Var 0) (holding 0 7 1))) 7 = 1"
proof -
  have h: "ptr (holding 0 7 1) (Var 0) = Some 7"
    by (simp add: holding_def)
  from release_nonnull_no_calls [OF h] h show ?thesis
    by (simp add: holding_def)
qed

text \<open>
  C4. For every wrapper \<open>a\<close>, null or not, move-constructing a new wrapper \<open>b\<close> from
  \<open>a\<close> leaves \<open>a\<close> null, makes no \<^verbatim>\<open>AddRef\<close> and no \<^verbatim>\<open>Release\<close> call (the counts
  are unchanged), and \<^verbatim>\<open>b.get()\<close> is what \<^verbatim>\<open>a.get()\<close> was before the move. The
  wrapper under construction is an object of its own, distinct from \<open>a\<close>.
\<close>

theorem ctor_move_steals:
  "b \<noteq> a \<Longrightarrow>
     get a (ctor_move b a s) = None
   \<and> get b (ctor_move b a s) = get a s
   \<and> calls (ctor_move b a s) = calls s
   \<and> ref_count (ctor_move b a s) = ref_count s
   \<and> destroyed (ctor_move b a s) = destroyed s"
  by (simp add: ctor_move_def release_def get_def)

theorem ctor_move_steals_witness:
  "Var 1 \<noteq> Var 0
   \<and> get (Var 0) (ctor_move (Var 1) (Var 0) (holding 0 7 1)) = None
   \<and> get (Var 1) (ctor_move (Var 1) (Var 0) (holding 0 7 1)) = Some 7
   \<and> calls (ctor_move (Var 1) (Var 0) (holding 0 7 1)) = []
   \<and> ref_count (ctor_move (Var 1) (Var 0) (holding 0 7 1)) 7 = 1
   \<and> get (Var 2) (ctor_move (Var 1) (Var 2) (holding 0 7 1)) = None
   \<and> get (Var 1) (ctor_move (Var 1) (Var 2) (holding 0 7 1)) = None"
proof -
  have h: "Var 1 \<noteq> Var 0" and h': "Var 1 \<noteq> Var 2"
    by simp_all
  from ctor_move_steals [OF h, of "holding 0 7 1"]
    ctor_move_steals [OF h', of "holding 0 7 1"] h
  show ?thesis
    by (simp add: holding_def get_def)
qed

text \<open>
  C5. Copy-then-destroy is a round trip on the count. For every wrapper \<open>a\<close> holding a
  non-null target \<open>q\<close>, copy-constructing \<open>b\<close> from \<open>a\<close> makes exactly one \<^verbatim>\<open>AddRef\<close>
  call, on \<open>q\<close>, leaves \<open>a\<close> unchanged and gives \<^verbatim>\<open>b.get() = a.get()\<close>; destroying \<open>b\<close>
  afterwards makes exactly one \<^verbatim>\<open>Release\<close> call, on \<open>q\<close>, and the counts are again
  those before the copy. The converting copy constructor does the same.
\<close>

theorem ctor_copy_dtor_round_trip:
  "ptr s a = Some q \<Longrightarrow>
     calls (ctor_copy b a s) = calls s @ [CallAddRef q]
   \<and> get b (ctor_copy b a s) = get a s
   \<and> get a (ctor_copy b a s) = get a s
   \<and> ref_count (ctor_copy b a s) = (ref_count s)(q := ref_count s q + 1)
   \<and> calls (dtor b (ctor_copy b a s)) = calls s @ [CallAddRef q, CallRelease q]
   \<and> ref_count (dtor b (ctor_copy b a s)) = ref_count s
   \<and> ctor_copy_U b a s = ctor_copy b a s"
  by (auto simp add: ctor_copy_def ctor_copy_U_def dtor_def AddRef_def Release_def get_def
      Let_def)

theorem ctor_copy_dtor_round_trip_witness:
  "ptr (holding 0 7 1) (Var 0) = Some 7
   \<and> calls (ctor_copy (Var 1) (Var 0) (holding 0 7 1)) = [CallAddRef 7]
   \<and> get (Var 1) (ctor_copy (Var 1) (Var 0) (holding 0 7 1)) = Some 7
   \<and> get (Var 0) (ctor_copy (Var 1) (Var 0) (holding 0 7 1)) = Some 7
   \<and> ref_count (ctor_copy (Var 1) (Var 0) (holding 0 7 1)) 7 = 2
   \<and> calls (dtor (Var 1) (ctor_copy (Var 1) (Var 0) (holding 0 7 1)))
       = [CallAddRef 7, CallRelease 7]
   \<and> ref_count (dtor (Var 1) (ctor_copy (Var 1) (Var 0) (holding 0 7 1))) 7 = 1"
proof -
  have h: "ptr (holding 0 7 1) (Var 0) = Some 7"
    by (simp add: holding_def)
  from ctor_copy_dtor_round_trip [OF h, of "Var 1"] h show ?thesis
    by (simp add: holding_def get_def)
qed

subsection \<open>Move assignment\<close>

text \<open>
  C6. For every wrapper \<open>a\<close> and every wrapper \<open>r\<close> distinct from it, \<^verbatim>\<open>a = std::move(r)\<close>
  calls \<^verbatim>\<open>Release\<close> exactly once on the old target of \<open>a\<close> if that is non-null (its
  count drops by one) and makes no other call, in particular no \<^verbatim>\<open>AddRef\<close>; it
  leaves \<open>r\<close> null and \<open>a\<close> holding the pointer that \<open>r\<close> held before.
\<close>

theorem assign_move_distinct:
  "i \<noteq> j \<Longrightarrow>
     calls (assign_move (Var i) (Var j) s) =
       calls s @ (case ptr s (Var i) of None \<Rightarrow> [] | Some t \<Rightarrow> [CallRelease t])
   \<and> ref_count (assign_move (Var i) (Var j) s) =
       (case ptr s (Var i) of None \<Rightarrow> ref_count s
        | Some t \<Rightarrow> (ref_count s)(t := ref_count s t - 1))
   \<and> get (Var j) (assign_move (Var i) (Var j) s) = None
   \<and> get (Var i) (assign_move (Var i) (Var j) s) = get (Var j) s"
  by (simp add: assign_move_def ctor_move_def release_def swap_ref_def swap_pp_def dtor_def
      Release_def get_def Let_def split: option.splits)

theorem assign_move_distinct_witness:
  "(0::nat) \<noteq> 1
   \<and> calls (assign_move (Var 0) (Var 1) (holding2 0 7 1 1 9 1)) = [CallRelease 7]
   \<and> ref_count (assign_move (Var 0) (Var 1) (holding2 0 7 1 1 9 1)) 7 = 0
   \<and> ref_count (assign_move (Var 0) (Var 1) (holding2 0 7 1 1 9 1)) 9 = 1
   \<and> get (Var 1) (assign_move (Var 0) (Var 1) (holding2 0 7 1 1 9 1)) = None
   \<and> get (Var 0) (assign_move (Var 0) (Var 1) (holding2 0 7 1 1 9 1)) = Some 9"
proof -
  have h: "(0::nat) \<noteq> 1"
    by simp
  from assign_move_distinct [OF h, of "holding2 0 7 1 1 9 1"] h show ?thesis
    by (simp add: holding2_def get_def)
qed

text \<open>
  C9. Self-move-assignment is an identity without capability calls: for every wrapper
  \<open>a\<close>, null or not, \<^verbatim>\<open>a = std::move(a)\<close> leaves \<open>a\<close> holding the pointer it held
  before and makes no \<^verbatim>\<open>AddRef\<close> and no \<^verbatim>\<open>Release\<close> call. The temporary takes the
  pointer of \<open>a\<close> by \<^verbatim>\<open>release()\<close>, the swap hands it back, and the temporary is
  destroyed null: the whole state is as before, but for the dead temporary.
\<close>

theorem assign_move_self_identity:
  "get (Var i) (assign_move (Var i) (Var i) s) = get (Var i) s
   \<and> calls (assign_move (Var i) (Var i) s) = calls s
   \<and> ref_count (assign_move (Var i) (Var i) s) = ref_count s
   \<and> destroyed (assign_move (Var i) (Var i) s) = destroyed s
   \<and> ptr (ctor_move Temp (Var i) s) Temp = ptr s (Var i)
   \<and> ptr (ctor_move Temp (Var i) s) (Var i) = None
   \<and> ptr (swap_ref Temp (Var i) (ctor_move Temp (Var i) s)) Temp = None
   \<and> assign_move (Var i) (Var i) s = s\<lparr>ptr := (ptr s)(Temp := None)\<rparr>"
  by (auto simp add: assign_move_def ctor_move_def release_def swap_ref_def swap_pp_def
      dtor_def Release_def get_def Let_def fun_eq_iff split: option.splits)

theorem assign_move_self_identity_witness:
  "get (Var 0) (assign_move (Var 0) (Var 0) (holding 0 7 1)) = Some 7
   \<and> calls (assign_move (Var 0) (Var 0) (holding 0 7 1)) = []
   \<and> ref_count (assign_move (Var 0) (Var 0) (holding 0 7 1)) 7 = 1
   \<and> get (Var 1) (assign_move (Var 1) (Var 1) (holding 0 7 1)) = None
   \<and> calls (assign_move (Var 1) (Var 1) (holding 0 7 1)) = []"
  using assign_move_self_identity [of 0 "holding 0 7 1"]
    assign_move_self_identity [of 1 "holding 0 7 1"]
  by (simp add: holding_def get_def)

subsection \<open>Swap\<close>

text \<open>
  C7. For all wrappers \<open>a\<close> and \<open>b\<close>, \<^verbatim>\<open>a.swap(b)\<close> exchanges their stored pointers
  and makes no capability call, and it is its own inverse: swapping twice restores
  the original state.
\<close>

theorem swap_ref_exchanges_involution:
  "get a (swap_ref a b s) = get b s
   \<and> get b (swap_ref a b s) = get a s
   \<and> calls (swap_ref a b s) = calls s
   \<and> ref_count (swap_ref a b s) = ref_count s
   \<and> destroyed (swap_ref a b s) = destroyed s
   \<and> swap_ref a b (swap_ref a b s) = s"
  by (auto simp add: swap_ref_def swap_pp_def get_def Let_def fun_eq_iff)

theorem swap_ref_exchanges_involution_witness:
  "get (Var 0) (swap_ref (Var 0) (Var 1) (holding2 0 7 1 1 9 1)) = Some 9
   \<and> get (Var 1) (swap_ref (Var 0) (Var 1) (holding2 0 7 1 1 9 1)) = Some 7
   \<and> calls (swap_ref (Var 0) (Var 1) (holding2 0 7 1 1 9 1)) = []
   \<and> swap_ref (Var 0) (Var 1) (swap_ref (Var 0) (Var 1) (holding2 0 7 1 1 9 1))
       = holding2 0 7 1 1 9 1"
  using swap_ref_exchanges_involution [of "Var 0" "Var 1" "holding2 0 7 1 1 9 1"]
  by (simp add: holding2_def get_def)

subsection \<open>Copy assignment\<close>

text \<open>
  C8. For every wrapper \<open>a\<close> and every wrapper \<open>r\<close>, of the same or of a convertible
  type, \<^verbatim>\<open>a = r\<close> is \<^verbatim>\<open>a = r.get()\<close>: both reach the same state, hence make the
  same capability calls in the same order and leave \<open>a\<close> and \<open>r\<close> alike. The calls
  are \<^verbatim>\<open>AddRef\<close> on the target of \<open>r\<close>, then \<^verbatim>\<open>Release\<close> on the old target of \<open>a\<close>;
  afterwards \<open>a\<close> holds what \<open>r\<close> holds, and \<open>r\<close> holds what it held.
\<close>

theorem assign_copy_is_assign_raw_get:
  "assign_copy a r s = assign_raw a (get r s) s
   \<and> assign_copy_U a r s = assign_raw a (get r s) s
   \<and> calls (assign_copy a r s) =
       calls s @ (case get r s of None \<Rightarrow> [] | Some q \<Rightarrow> [CallAddRef q])
               @ (case get a s of None \<Rightarrow> [] | Some t \<Rightarrow> [CallRelease t])
   \<and> get a (assign_copy a r s) = get r s
   \<and> get r (assign_copy a r s) = get r s"
  by (simp add: assign_copy_def assign_copy_U_def get_def assign_raw_def AddRef_def
      Release_def Let_def split: option.splits)

theorem assign_copy_is_assign_raw_get_witness:
  "assign_copy (Var 0) (Var 1) (holding2 0 7 1 1 9 1)
     = assign_raw (Var 0) (Some 9) (holding2 0 7 1 1 9 1)
   \<and> assign_copy_U (Var 0) (Var 1) (holding2 0 7 1 1 9 1)
     = assign_raw (Var 0) (Some 9) (holding2 0 7 1 1 9 1)
   \<and> calls (assign_copy (Var 0) (Var 1) (holding2 0 7 1 1 9 1))
     = [CallAddRef 9, CallRelease 7]
   \<and> get (Var 0) (assign_copy (Var 0) (Var 1) (holding2 0 7 1 1 9 1)) = Some 9
   \<and> get (Var 1) (assign_copy (Var 0) (Var 1) (holding2 0 7 1 1 9 1)) = Some 9"
  using assign_copy_is_assign_raw_get [of "Var 0" "Var 1" "holding2 0 7 1 1 9 1"]
  by (simp add: holding2_def get_def assign_copy_def assign_copy_U_def assign_raw_def
      AddRef_def Release_def)

subsection \<open>Release of a null wrapper\<close>

text \<open>
  C10. \<^verbatim>\<open>release()\<close> is defined on a null wrapper: for every wrapper whose target is
  null it returns the null pointer, leaves the wrapper null and makes no capability
  call; the state is not changed at all.
\<close>

theorem release_null_total:
  "ptr s a = None \<Longrightarrow>
     fst (release a s) = None
   \<and> get a (snd (release a s)) = None
   \<and> calls (snd (release a s)) = calls s
   \<and> snd (release a s) = s"
  by (auto simp add: release_def get_def fun_upd_idem)

theorem release_null_total_witness:
  "ptr (holding 0 7 1) (Var 1) = None
   \<and> fst (release (Var 1) (holding 0 7 1)) = None
   \<and> get (Var 1) (snd (release (Var 1) (holding 0 7 1))) = None
   \<and> calls (snd (release (Var 1) (holding 0 7 1))) = []
   \<and> snd (release (Var 1) (holding 0 7 1)) = holding 0 7 1"
proof -
  have h: "ptr (holding 0 7 1) (Var 1) = None"
    by (simp add: holding_def)
  from release_null_total [OF h] h show ?thesis
    by (simp add: holding_def get_def release_def)
qed

end
